theory Spec2Isabelle
  imports Complex_Main
begin

section \<open>Audio transcription command-line tool: a model of \<open>mp3_to_text.py\<close>\<close>

text \<open>
  The program validates an audio file, optionally trims it, sends it to a remote model,
  writes the transcript, optionally summarises it, and cleans up. Everything outside the
  program (file system, audio decoder, remote service) is an oracle of the record
  \<open>env\<close>: it fixes, for one run, what each external call returns or raises. What the
  program does to the outside is the record \<open>world\<close>: the temporary files and remote
  resources that exist, the files written, the time slept and the ordered list of external
  calls. Exceptions are values of the type \<open>error\<close>; a function that can raise returns
  \<open>error + 'a\<close>. Progress lines printed to the terminal are left out; warnings are kept.
  Strings are lists of ASCII characters.
\<close>

subsection \<open>Constants (lines 20-23)\<close>

definition SUPPORTED_FORMATS :: "string list" where
  "SUPPORTED_FORMATS = [''.mp3'', ''.wav'', ''.aac'', ''.flac'', ''.m4a'', ''.ogg'', ''.aiff'']"

definition MAX_FILE_SIZE_MB :: real where
  "MAX_FILE_SIZE_MB = 20"

subsection \<open>Errors\<close>

text \<open>
  The source raises \<open>ValueError\<close> with three different messages in the trimmer, a plain
  \<open>Exception\<close> for a failed upload, and lets the exceptions of the libraries through.
  \<^item> \<open>InvalidTimeFormat s\<close>: \<open>ValueError("Invalid time format: s. Use MM:SS format.")\<close>
  \<^item> \<open>InvalidRange\<close>: \<open>ValueError("Start time must be before end time")\<close>
  \<^item> \<open>StartExceedsDuration\<close>: \<open>ValueError("Start time exceeds audio duration")\<close>
  \<^item> \<open>UploadFailed st\<close>: \<open>Exception("File upload failed with state: st")\<close>
  \<^item> \<open>NotFound\<close>, \<open>NotAFile\<close>, \<open>UnsupportedFormat\<close>: raised by \<open>validate_file\<close>
  \<^item> \<open>LibraryError msg\<close>: an exception raised inside an external call
  \<^item> \<open>KeyboardInterrupt\<close>: the user's interruption, delivered during an external call
\<close>

datatype error =
    InvalidTimeFormat string
  | InvalidRange
  | StartExceedsDuration
  | UploadFailed string
  | NotFound string
  | NotAFile string
  | UnsupportedFormat
  | LibraryError string
  | KeyboardInterrupt

subsection \<open>Python primitives used by \<open>parse_time\<close>\<close>

text \<open>
  The truth value of an \<open>Optional[str]\<close>: \<open>None\<close> and the empty string are false.
\<close>

fun truthy :: "string option \<Rightarrow> bool" where
  "truthy None = False"
| "truthy (Some s) = (s \<noteq> [])"

text \<open>
  What an f-string prints for an \<open>Optional[str]\<close>.
\<close>

fun fmt_opt :: "string option \<Rightarrow> string" where
  "fmt_opt None = ''None''"
| "fmt_opt (Some s) = s"

text \<open>
  \<open>str.split(sep)\<close> for a one-character separator: the parts between the separators,
  empty parts included; one part more than there are separators.
\<close>

fun split_sep :: "char \<Rightarrow> string \<Rightarrow> string list" where
  "split_sep sep [] = [[]]"
| "split_sep sep (c # cs) =
     (let rest = split_sep sep cs in
      if c = sep then [] # rest else (c # hd rest) # tl rest)"

text \<open>
  \<open>int(s)\<close> in base ten on an ASCII string, as CPython's \<open>PyLong_FromString\<close> reads it:
  leading white space, an optional sign, decimal digits in which single underscores may
  stand between two digits, trailing white space, and nothing else. \<open>None\<close> is the
  \<open>ValueError\<close>. Python's integers are unbounded, hence \<open>int\<close>; the interpreter's
  limit on the number of digits of one literal is not modelled.
\<close>

definition is_digit :: "char \<Rightarrow> bool" where
  "is_digit c = (48 \<le> (of_char c :: nat) \<and> (of_char c :: nat) \<le> 57)"

definition digit_val :: "char \<Rightarrow> nat" where
  "digit_val c = of_char c - 48"

definition is_space :: "char \<Rightarrow> bool" where
  "is_space c = ((of_char c :: nat) \<in> {9, 10, 11, 12, 13, 32})"

datatype scan_prev = AtStart | AfterDigit | AfterUnderscore

fun scan_digits :: "scan_prev \<Rightarrow> nat \<Rightarrow> string \<Rightarrow> nat option" where
  "scan_digits prev acc [] = (if prev = AfterDigit then Some acc else None)"
| "scan_digits prev acc (c # cs) =
     (if is_digit c then scan_digits AfterDigit (acc * 10 + digit_val c) cs
      else if c = CHR ''_'' then
        (if prev = AfterDigit then scan_digits AfterUnderscore acc cs else None)
      else if prev = AfterDigit \<and> list_all is_space (c # cs) then Some acc
      else None)"

definition py_int :: "string \<Rightarrow> int option" where
  "py_int s =
     (case dropWhile is_space s of
        [] \<Rightarrow> None
      | c # cs \<Rightarrow>
          if c = CHR ''+'' then map_option int (scan_digits AtStart 0 cs)
          else if c = CHR ''-'' then map_option (\<lambda>n. - int n) (scan_digits AtStart 0 cs)
          else map_option int (scan_digits AtStart 0 (c # cs)))"

text \<open>
  The number a run of decimal digits denotes, read from the left on top of \<open>acc\<close>:
  what the digit branch of \<open>scan_digits\<close> accumulates.
\<close>

definition digits_value :: "nat \<Rightarrow> string \<Rightarrow> nat" where
  "digits_value acc ds = foldl (\<lambda>a c. a * 10 + digit_val c) acc ds"

text \<open>
  \<open>str(n)\<close> for an integer: the decimal digits, with a minus sign when negative.
\<close>

definition digit_char :: "nat \<Rightarrow> char" where
  "digit_char d = char_of (48 + d)"

fun show_nat :: "nat \<Rightarrow> string" where
  "show_nat n = (if n < 10 then [digit_char n] else show_nat (n div 10) @ [digit_char (n mod 10)])"

definition show_int :: "int \<Rightarrow> string" where
  "show_int i = (if i < 0 then CHR ''-'' # show_nat (nat (- i)) else show_nat (nat i))"

subsection \<open>\<open>AudioTranscriber.parse_time\<close> (lines 32-42)\<close>

text \<open>
  Both \<open>ValueError\<close> (wrong number of parts, a part \<open>int\<close> rejects) and \<open>IndexError\<close>
  are caught and raised again as the one \<open>ValueError\<close> naming the input.
\<close>

definition parse_time :: "string \<Rightarrow> error + int" where
  "parse_time time_str =
     (let parts = split_sep CHR '':'' time_str in
      if length parts \<noteq> 2 then Inl (InvalidTimeFormat time_str)
      else
        (case py_int (parts ! 0) of
           None \<Rightarrow> Inl (InvalidTimeFormat time_str)
         | Some minutes \<Rightarrow>
             (case py_int (parts ! 1) of
                None \<Rightarrow> Inl (InvalidTimeFormat time_str)
              | Some seconds \<Rightarrow> Inr ((minutes * 60 + seconds) * 1000))))"

text \<open>
  Modelled from the spec: the repository has no function that formats milliseconds back
  to a string; the spec's round-trip property speaks of one. This is the "MM:SS"
  rendering the spec's format names: whole minutes, a colon, the remaining whole seconds,
  each padded with a zero to two digits.
\<close>

definition pad2 :: "int \<Rightarrow> string" where
  "pad2 i = (if 0 \<le> i \<and> i < 10 then CHR ''0'' # show_int i else show_int i)"

definition format_time :: "int \<Rightarrow> string" where
  "format_time ms = pad2 (ms div 60000) @ CHR '':'' # pad2 ((ms div 1000) mod 60)"

subsection \<open>The outside world\<close>

text \<open>
  A temporary file is empty when created and holds an exported clip afterwards. The clip
  is kept symbolically: \<open>Mp3Clip src a b\<close> is \<open>AudioSegment.from_file(src)[a:b]\<close>
  exported as mp3; the slicing itself is the audio library's.
\<close>

datatype temp_content = EmptyTemp | Mp3Clip string int int

datatype content = InlinePart string string | RemoteFile string

datatype event =
    Decode string
  | CreateTemp string
  | Export string
  | UploadCall string
  | Sleep nat
  | GetFile string
  | ReadInline string
  | Generate string content "string option"
  | Summarize string
  | WriteFile string
  | DeleteRemote string
  | RemoveTemp string
  | Warning string

record world =
  temp_files :: "string \<rightharpoonup> temp_content"
  remote_files :: "string set"
  written :: "string \<rightharpoonup> string"
  slept :: nat
  events :: "event list"

definition emit :: "event \<Rightarrow> world \<Rightarrow> world" where
  "emit e w = w\<lparr>events := events w @ [e]\<rparr>"

record env =
  environ_api_key :: "string option"
  path_exists :: "string \<Rightarrow> bool"
  path_is_file :: "string \<Rightarrow> bool"
  path_suffix_lower :: "string \<Rightarrow> string"
  path_size :: "string \<Rightarrow> nat"
  decode_len :: "string \<Rightarrow> error + nat"
  new_temp_name :: string
  export_result :: "error option"
  upload_result :: "error + string \<times> string"
  get_file_result :: "nat \<Rightarrow> error + string"
  inline_result :: "error option"
  generate_result :: "string \<Rightarrow> content \<Rightarrow> string option \<Rightarrow> error + string"
  summarize_result :: "string \<Rightarrow> error + string"
  write_result :: "string \<Rightarrow> error option"
  delete_result :: "error option"
  remove_result :: "error option"

text \<open>
  \<^item> \<open>environ_api_key\<close>: \<open>os.environ.get('GEMINI_API_KEY')\<close>
  \<^item> \<open>path_exists\<close>, \<open>path_is_file\<close>, \<open>path_suffix_lower\<close> (\<open>Path(p).suffix.lower()\<close>),
    \<open>path_size\<close> (bytes): the file system as \<open>pathlib\<close> and \<open>os.path\<close> report it
  \<^item> \<open>decode_len\<close>: \<open>AudioSegment.from_file\<close> followed by \<open>len\<close>, in milliseconds
  \<^item> \<open>new_temp_name\<close>, \<open>export_result\<close>: \<open>NamedTemporaryFile\<close> and \<open>export\<close>
  \<^item> \<open>upload_result\<close>: \<open>genai.upload_file\<close>, giving the resource's name and
    \<open>state.name\<close>; \<open>get_file_result k\<close>: the \<open>state.name\<close> the \<open>k\<close>-th call of
    \<open>genai.get_file\<close> reports (counted from 0)
  \<^item> \<open>inline_result\<close>: reading the file and \<open>genai.Part.from_bytes\<close>
  \<^item> \<open>generate_result\<close>, \<open>summarize_result\<close>: \<open>generate_content\<close> and \<open>response.text\<close>
  \<^item> \<open>write_result\<close>: creating the parent directory and writing a text file
  \<^item> \<open>delete_result\<close>: \<open>genai.delete_file\<close>; \<open>remove_result\<close>: \<open>os.remove\<close>
\<close>

subsection \<open>\<open>AudioTranscriber.trim_audio\<close> (lines 44-71)\<close>

text \<open>
  \<open>parse_time(x) if x else d\<close>.
\<close>

definition bound_ms :: "string option \<Rightarrow> int \<Rightarrow> error + int" where
  "bound_ms x d = (case x of None \<Rightarrow> Inr d | Some s \<Rightarrow> if s \<noteq> [] then parse_time s else Inr d)"

definition trim_audio ::
  "env \<Rightarrow> string \<Rightarrow> string option \<Rightarrow> string option \<Rightarrow> world \<Rightarrow> (error + string) \<times> world" where
  "trim_audio env input_file start_time end_time w =
     (if \<not> truthy start_time \<and> \<not> truthy end_time then (Inr input_file, w)
      else
        let w1 = emit (Decode input_file) w in
        (case decode_len env input_file of
           Inl e \<Rightarrow> (Inl e, w1)
         | Inr audio_len \<Rightarrow>
             (case bound_ms start_time 0 of
                Inl e \<Rightarrow> (Inl e, w1)
              | Inr start_ms \<Rightarrow>
                  (case bound_ms end_time (int audio_len) of
                     Inl e \<Rightarrow> (Inl e, w1)
                   | Inr end_ms \<Rightarrow>
                       if start_ms \<ge> end_ms then (Inl InvalidRange, w1)
                       else if start_ms > int audio_len then (Inl StartExceedsDuration, w1)
                       else
                         let t = new_temp_name env;
                             w2 = emit (CreateTemp t) (w1\<lparr>temp_files := (temp_files w1)(t \<mapsto> EmptyTemp)\<rparr>);
                             w3 = emit (Export t) w2
                         in
                         (case export_result env of
                            Some e \<Rightarrow> (Inl e, w3)
                          | None \<Rightarrow>
                              (Inr t, w3\<lparr>temp_files :=
                                 (temp_files w3)(t \<mapsto> Mp3Clip input_file start_ms end_ms)\<rparr>))))))"

subsection \<open>\<open>AudioTranscriber.upload_file\<close> (lines 73-95)\<close>

text \<open>
  The polling loop of lines 87-89. It runs for as long as the service reports
  \<open>PROCESSING\<close>, so it need not end: \<open>None\<close> is the run that never returns. \<open>k\<close>
  counts the calls of \<open>get_file\<close> made so far.
\<close>

partial_function (option) wait_processing ::
  "env \<Rightarrow> string \<Rightarrow> nat \<Rightarrow> string \<Rightarrow> world \<Rightarrow> ((error + string) \<times> world) option" where
  "wait_processing env name k state w =
     (if state = ''PROCESSING'' then
        (case get_file_result env k of
           Inl e \<Rightarrow>
             Some (Inl e, emit (GetFile name) (emit (Sleep 2) (w\<lparr>slept := slept w + 2\<rparr>)))
         | Inr state' \<Rightarrow>
             wait_processing env name (Suc k) state'
               (emit (GetFile name) (emit (Sleep 2) (w\<lparr>slept := slept w + 2\<rparr>))))
      else Some (Inr state, w))"

declare wait_processing.simps [code]

definition upload_file ::
  "env \<Rightarrow> string \<Rightarrow> world \<Rightarrow> ((error + string) \<times> world) option" where
  "upload_file env file_path w =
     (let w1 = emit (UploadCall file_path) w in
      case upload_result env of
        Inl e \<Rightarrow> Some (Inl e, w1)
      | Inr (name, state) \<Rightarrow>
          (case wait_processing env name 0 state (w1\<lparr>remote_files := insert name (remote_files w1)\<rparr>) of
             None \<Rightarrow> None
           | Some (Inl e, w2) \<Rightarrow> Some (Inl e, w2)
           | Some (Inr final, w2) \<Rightarrow>
               if final \<noteq> ''ACTIVE'' then Some (Inl (UploadFailed final), w2)
               else Some (Inr name, w2)))"

text \<open>
  What the service reports at the \<open>k\<close>-th look at the resource: the state returned by
  the upload itself for \<open>k = 0\<close>, the state returned by the \<open>k\<close>-th poll afterwards.
\<close>

definition reported :: "env \<Rightarrow> nat \<Rightarrow> error + string" where
  "reported env k =
     (case k of 0 \<Rightarrow> map_sum id snd (upload_result env) | Suc j \<Rightarrow> get_file_result env j)"

subsection \<open>\<open>AudioTranscriber.process_inline\<close> (lines 97-119)\<close>

definition mime_types :: "(string \<times> string) list" where
  "mime_types =
     [(''.mp3'', ''audio/mp3''), (''.wav'', ''audio/wav''), (''.aac'', ''audio/aac''),
      (''.flac'', ''audio/flac''), (''.m4a'', ''audio/mp4''), (''.ogg'', ''audio/ogg''),
      (''.aiff'', ''audio/aiff'')]"

definition process_inline :: "env \<Rightarrow> string \<Rightarrow> world \<Rightarrow> (error + content) \<times> world" where
  "process_inline env file_path w =
     (let ext = path_suffix_lower env file_path;
          mime_type = (case map_of mime_types ext of Some m \<Rightarrow> m | None \<Rightarrow> ''audio/mp3'');
          w1 = emit (ReadInline file_path) w
      in case inline_result env of
           Some e \<Rightarrow> (Inl e, w1)
         | None \<Rightarrow> (Inr (InlinePart file_path mime_type), w1))"

subsection \<open>\<open>AudioTranscriber.transcribe\<close> (lines 130-172)\<close>

text \<open>
  The prompt of lines 138-141. \<open>count_tokens\<close> catches every exception and only prints,
  so it is left out.
\<close>

definition generic_prompt :: string where
  "generic_prompt = ''Generate a transcript of the speech. Include all spoken content accurately.''"

definition range_prompt :: "string option \<Rightarrow> string option \<Rightarrow> string" where
  "range_prompt start_time end_time =
     ''Provide a transcript of the speech from '' @ fmt_opt start_time @ '' to '' @ fmt_opt end_time @ ''.''"

definition build_prompt :: "bool \<Rightarrow> string option \<Rightarrow> string option \<Rightarrow> string" where
  "build_prompt use_timestamps start_time end_time =
     (if use_timestamps \<and> truthy start_time \<and> truthy end_time
      then range_prompt start_time end_time
      else generic_prompt)"

definition transcribe ::
  "env \<Rightarrow> content \<Rightarrow> string option \<Rightarrow> bool \<Rightarrow> string option \<Rightarrow> string option \<Rightarrow> world
     \<Rightarrow> (error + string) \<times> world" where
  "transcribe env audio_content system_instruction use_timestamps start_time end_time w =
     (let prompt = build_prompt use_timestamps start_time end_time;
          sys = (if truthy system_instruction then system_instruction else None)
      in (generate_result env prompt audio_content sys,
          emit (Generate prompt audio_content sys) w))"

subsection \<open>\<open>AudioTranscriber.summarize\<close> and \<open>cleanup_file\<close> (lines 174-208)\<close>

definition summarize :: "env \<Rightarrow> string \<Rightarrow> world \<Rightarrow> (error + string) \<times> world" where
  "summarize env text w = (summarize_result env text, emit (Summarize text) w)"

definition cleanup_file :: "env \<Rightarrow> string \<Rightarrow> world \<Rightarrow> world" where
  "cleanup_file env name w =
     (case delete_result env of
        None \<Rightarrow> emit (DeleteRemote name) (w\<lparr>remote_files := remote_files w - {name}\<rparr>)
      | Some e \<Rightarrow> emit (Warning ''Could not delete uploaded file'') (emit (DeleteRemote name) w))"

subsection \<open>\<open>validate_file\<close> (lines 210-224)\<close>

text \<open>
  A size in bytes as megabytes. The source computes the quotient in floating point;
  dividing by \<open>2\<^sup>2\<^sup>0\<close> is exact there for every size a file can have, and the only use
  of the quotient that matters is its comparison with 20, so the exact quotient decides
  the same.
\<close>

definition size_mb :: "nat \<Rightarrow> real" where
  "size_mb bytes = real bytes / (1024 * 1024)"

definition validate_file :: "env \<Rightarrow> string \<Rightarrow> error + real" where
  "validate_file env file_path =
     (if \<not> path_exists env file_path then Inl (NotFound file_path)
      else if \<not> path_is_file env file_path then Inl (NotAFile file_path)
      else if path_suffix_lower env file_path \<notin> set SUPPORTED_FORMATS then Inl UnsupportedFormat
      else Inr (size_mb (path_size env file_path)))"

subsection \<open>\<open>main\<close> (lines 226-366)\<close>

record args =
  arg_input :: string
  arg_output :: string
  api_key :: "string option"
  summary :: "string option"
  start :: "string option"
  end_time :: "string option"
  system_instruction :: "string option"
  inline :: bool
  keep_uploaded :: bool
  use_timestamps :: bool

text \<open>
  The choice of lines 300-311, as a function of the inline flag and the size in MB.
\<close>

datatype strategy = UseInline | UploadWithWarning | UploadDirect

definition choose_strategy :: "bool \<Rightarrow> real \<Rightarrow> strategy" where
  "choose_strategy inline_flag file_size_mb =
     (if inline_flag \<or> file_size_mb < MAX_FILE_SIZE_MB then
        (if file_size_mb \<ge> MAX_FILE_SIZE_MB then UploadWithWarning else UseInline)
      else UploadDirect)"

definition uploaded_as ::
  "((error + string) \<times> world) option \<Rightarrow> ((error + content \<times> string option) \<times> world) option" where
  "uploaded_as r =
     (case r of
        None \<Rightarrow> None
      | Some (Inl e, w) \<Rightarrow> Some (Inl e, w)
      | Some (Inr name, w) \<Rightarrow> Some (Inr (RemoteFile name, Some name), w))"

definition prepare_content ::
  "env \<Rightarrow> bool \<Rightarrow> string \<Rightarrow> real \<Rightarrow> world
     \<Rightarrow> ((error + content \<times> string option) \<times> world) option" where
  "prepare_content env inline_flag audio_file_path file_size_mb w =
     (case choose_strategy inline_flag file_size_mb of
        UploadWithWarning \<Rightarrow>
          uploaded_as (upload_file env audio_file_path
            (emit (Warning ''File size exceeds limit for inline processing'') w))
      | UseInline \<Rightarrow>
          (case process_inline env audio_file_path w of
             (Inl e, w1) \<Rightarrow> Some (Inl e, w1)
           | (Inr c, w1) \<Rightarrow> Some (Inr (c, None), w1))
      | UploadDirect \<Rightarrow> uploaded_as (upload_file env audio_file_path w))"

text \<open>
  Lines 322-351: write the transcript, summarise if asked, delete the uploaded resource.
  The result is the exception that left the block, if any.
\<close>

definition write_file :: "env \<Rightarrow> string \<Rightarrow> string \<Rightarrow> world \<Rightarrow> error option \<times> world" where
  "write_file env path text w =
     (case write_result env path of
        Some e \<Rightarrow> (Some e, emit (WriteFile path) w)
      | None \<Rightarrow> (None, emit (WriteFile path) (w\<lparr>written := (written w)(path \<mapsto> text)\<rparr>)))"

definition final_cleanup :: "env \<Rightarrow> args \<Rightarrow> string option \<Rightarrow> world \<Rightarrow> world" where
  "final_cleanup env a uploaded_file w =
     (case uploaded_file of
        None \<Rightarrow> w
      | Some name \<Rightarrow> if \<not> keep_uploaded a then cleanup_file env name w else w)"

definition save_results ::
  "env \<Rightarrow> args \<Rightarrow> string option \<Rightarrow> string \<Rightarrow> world \<Rightarrow> error option \<times> world" where
  "save_results env a uploaded_file transcription w =
     (case write_file env (arg_output a) transcription w of
        (Some e, w1) \<Rightarrow> (Some e, w1)
      | (None, w1) \<Rightarrow>
          if truthy (summary a) then
            (case summarize env transcription w1 of
               (Inl e, w2) \<Rightarrow> (Some e, w2)
             | (Inr s, w2) \<Rightarrow>
                 (case write_file env (fmt_opt (summary a)) s w2 of
                    (Some e, w3) \<Rightarrow> (Some e, w3)
                  | (None, w3) \<Rightarrow> (None, final_cleanup env a uploaded_file w3)))
          else (None, final_cleanup env a uploaded_file w1))"

text \<open>
  Lines 290-297: the physical trim. The result is the value of the local variable
  \<open>temp_file\<close>, the path of the audio to send, and its size in MB.
\<close>

definition trim_stage ::
  "env \<Rightarrow> args \<Rightarrow> real \<Rightarrow> world \<Rightarrow> (error + string option \<times> string \<times> real) \<times> world" where
  "trim_stage env a file_size_mb w =
     (if (truthy (start a) \<or> truthy (end_time a)) \<and> \<not> use_timestamps a then
        (case trim_audio env (arg_input a) (start a) (end_time a) w of
           (Inl e, w1) \<Rightarrow> (Inl e, w1)
         | (Inr t, w1) \<Rightarrow> (Inr (Some t, t, size_mb (path_size env t)), w1))
      else (Inr (None, arg_input a, file_size_mb), w))"

text \<open>
  The body of the \<open>try\<close> block (lines 282-351). The result is the exception that left the
  block, if any, the value of \<open>temp_file\<close> at that moment, and the world.
\<close>

definition try_body ::
  "env \<Rightarrow> args \<Rightarrow> world \<Rightarrow> (error option \<times> string option \<times> world) option" where
  "try_body env a w =
     (case validate_file env (arg_input a) of
        Inl e \<Rightarrow> Some (Some e, None, w)
      | Inr file_size_mb0 \<Rightarrow>
          (case trim_stage env a file_size_mb0 w of
             (Inl e, w1) \<Rightarrow> Some (Some e, None, w1)
           | (Inr (temp_file, audio_file_path, file_size_mb), w1) \<Rightarrow>
               (case prepare_content env (inline a) audio_file_path file_size_mb w1 of
                  None \<Rightarrow> None
                | Some (Inl e, w2) \<Rightarrow> Some (Some e, temp_file, w2)
                | Some (Inr (audio_content, uploaded_file), w2) \<Rightarrow>
                    (case transcribe env audio_content (system_instruction a)
                            (use_timestamps a) (start a) (end_time a) w2 of
                       (Inl e, w3) \<Rightarrow> Some (Some e, temp_file, w3)
                     | (Inr transcription, w3) \<Rightarrow>
                         (case save_results env a uploaded_file transcription w3 of
                            (r, w4) \<Rightarrow> Some (r, temp_file, w4))))))"

text \<open>
  The \<open>finally\<close> block (lines 359-366).
\<close>

definition finally_block :: "env \<Rightarrow> string option \<Rightarrow> world \<Rightarrow> world" where
  "finally_block env temp_file w =
     (case temp_file of
        None \<Rightarrow> w
      | Some t \<Rightarrow>
          if t \<noteq> [] \<and> temp_files w t \<noteq> None then
            (case remove_result env of
               None \<Rightarrow> emit (RemoveTemp t) (w\<lparr>temp_files := (temp_files w)(t := None)\<rparr>)
             | Some e \<Rightarrow> emit (Warning ''Could not delete temporary file'') (emit (RemoveTemp t) w))
          else w)"

text \<open>
  The whole run: the exit code and the world it leaves, or \<open>None\<close> when the run never
  ends. Both \<open>except\<close> branches print and call \<open>sys.exit(1)\<close>; the \<open>finally\<close> block
  runs on every way out of the \<open>try\<close>.
\<close>

definition main_run :: "env \<Rightarrow> args \<Rightarrow> world \<Rightarrow> (nat \<times> world) option" where
  "main_run env a w =
     (if \<not> (truthy (api_key a) \<or> truthy (environ_api_key env)) then Some (1, w)
      else
        (case try_body env a w of
           None \<Rightarrow> None
         | Some (r, temp_file, w1) \<Rightarrow>
             Some (case r of None \<Rightarrow> 0 | Some e \<Rightarrow> 1, finally_block env temp_file w1)))"

subsection \<open>Concrete runs\<close>

text \<open>
  An empty world, and an outside in which every external call succeeds: any path is an
  existing 50 MB \<open>.wav\<close> file of ten minutes, the upload is active at once, the model
  answers with fixed texts.
\<close>

definition world0 :: world where
  "world0 = \<lparr>temp_files = Map.empty, remote_files = {}, written = Map.empty, slept = 0, events = []\<rparr>"

definition env_ok :: env where
  "env_ok =
     \<lparr>environ_api_key = Some ''k'',
      path_exists = (\<lambda>p. True),
      path_is_file = (\<lambda>p. True),
      path_suffix_lower = (\<lambda>p. ''.wav''),
      path_size = (\<lambda>p. 52428800),
      decode_len = (\<lambda>p. Inr 600000),
      new_temp_name = ''/tmp/t.mp3'',
      export_result = None,
      upload_result = Inr (''files/f1'', ''ACTIVE''),
      get_file_result = (\<lambda>k. Inr ''ACTIVE''),
      inline_result = None,
      generate_result = (\<lambda>p c s. Inr ''text''),
      summarize_result = (\<lambda>t. Inr ''short''),
      write_result = (\<lambda>p. None),
      delete_result = None,
      remove_result = None\<rparr>"

text \<open>
  The same outside, except that the transcription request fails.
\<close>

definition env_generate_fails :: env where
  "env_generate_fails = env_ok\<lparr>generate_result := (\<lambda>p c s. Inl (LibraryError ''503''))\<rparr>"

text \<open>
  The same outside, except that the service reports \<open>PROCESSING\<close> at the upload and at
  the first two polls, and \<open>FAILED\<close> at the third.
\<close>

definition env_slow_failed :: env where
  "env_slow_failed =
     env_ok\<lparr>upload_result := Inr (''files/f1'', ''PROCESSING''),
            get_file_result := (\<lambda>k. if k < 2 then Inr ''PROCESSING'' else Inr ''FAILED'')\<rparr>"

definition args0 :: args where
  "args0 =
     \<lparr>arg_input = ''lecture.wav'', arg_output = ''out.txt'', api_key = None, summary = None,
      start = None, end_time = None, system_instruction = None, inline = False,
      keep_uploaded = False, use_timestamps = False\<rparr>"

section \<open>Properties\<close>

subsection \<open>Splitting and reading integers\<close>


lemma split_sep_nonempty: "split_sep sep s \<noteq> []"
  by (induction s) (auto simp: Let_def)

lemma length_split_sep: "length (split_sep sep s) = Suc (count_list s sep)"
  by (induction s) (auto simp: Let_def split_sep_nonempty)

lemma split_sep_no_sep: "sep \<notin> set s \<Longrightarrow> split_sep sep s = [s]"
  by (induction s) (auto simp: Let_def)

lemma split_sep_append: "sep \<notin> set a \<Longrightarrow> split_sep sep (a @ sep # b) = a # split_sep sep b"
  by (induction a) (auto simp: Let_def)

lemma split_sep_two: "sep \<notin> set a \<Longrightarrow> sep \<notin> set b \<Longrightarrow> split_sep sep (a @ sep # b) = [a, b]"
  by (simp add: split_sep_append split_sep_no_sep)

lemma split_sep_two_conv:
  "split_sep sep s = [a, b] \<Longrightarrow> s = a @ sep # b \<and> sep \<notin> set a \<and> sep \<notin> set b"
proof (induction s arbitrary: a)
  case Nil
  then show ?case by simp
next
  case (Cons c cs)
  show ?case
  proof (cases "c = sep")
    case True
    with Cons.prems have a: "a = []" and r: "split_sep sep cs = [b]" by (auto simp: Let_def)
    have "sep \<notin> set cs \<and> cs = b"
    proof (rule ccontr)
      assume n: "\<not> (sep \<notin> set cs \<and> cs = b)"
      show False
      proof (cases "sep \<in> set cs")
        case True
        then have "count_list cs sep > 0" using count_list_0_iff[of cs sep] by auto
        then have "length (split_sep sep cs) > 1" by (simp add: length_split_sep)
        with r show False by simp
      next
        case False
        then have "split_sep sep cs = [cs]" by (rule split_sep_no_sep)
        with r n False show False by simp
      qed
    qed
    with a True show ?thesis by auto
  next
    case False
    with Cons.prems obtain a' where a: "a = c # a'" and r: "split_sep sep cs = a' # [b]"
      using split_sep_nonempty[of sep cs]
      by (cases "split_sep sep cs") (auto simp: Let_def)
    from Cons.IH[OF r] a False show ?thesis by simp
  qed
qed

lemma scan_digits_chars:
  "scan_digits prev acc cs = Some v \<Longrightarrow> c \<in> set cs \<Longrightarrow> is_digit c \<or> c = CHR ''_'' \<or> is_space c"
proof (induction cs arbitrary: prev acc)
  case Nil
  then show ?case by simp
next
  case (Cons x xs)
  then show ?case
    by (auto split: if_splits simp: list_all_iff)
qed

lemma colon_not_numeric: "\<not> is_digit CHR '':''" "\<not> is_space CHR '':''" "CHR '':'' \<noteq> CHR ''_''"
  "CHR '':'' \<noteq> CHR ''+''"  "CHR '':'' \<noteq> CHR ''-''"
  by (simp_all add: is_digit_def is_space_def)

lemma py_int_no_colon: "py_int s = Some v \<Longrightarrow> CHR '':'' \<notin> set s"
proof
  assume p: "py_int s = Some v" and m: "CHR '':'' \<in> set s"
  have "set s = set (takeWhile is_space s) \<union> set (dropWhile is_space s)"
    by (metis set_append takeWhile_dropWhile_id)
  moreover have "CHR '':'' \<notin> set (takeWhile is_space s)"
    using colon_not_numeric(2) by (auto dest: set_takeWhileD)
  ultimately have d: "CHR '':'' \<in> set (dropWhile is_space s)" using m by auto
  then obtain c cs where e: "dropWhile is_space s = c # cs" by (cases "dropWhile is_space s") auto
  show False
  proof (cases "c = CHR ''+'' \<or> c = CHR ''-''")
    case True
    with p e obtain n where "scan_digits AtStart 0 cs = Some n"
      by (auto simp: py_int_def split: if_splits)
    moreover from d e True have "CHR '':'' \<in> set cs" by auto
    ultimately show False using scan_digits_chars colon_not_numeric by blast
  next
    case False
    with p e obtain n where "scan_digits AtStart 0 (c # cs) = Some n"
      by (auto simp: py_int_def split: if_splits)
    with d e show False using scan_digits_chars colon_not_numeric by metis
  qed
qed


declare show_nat.simps [simp del]

lemma digit_char_props: "d < 10 \<Longrightarrow> is_digit (digit_char d) \<and> digit_val (digit_char d) = d"
  by (simp add: is_digit_def digit_val_def digit_char_def)

lemma digit_not_other:
  "is_digit c \<Longrightarrow> \<not> is_space c \<and> c \<noteq> CHR ''+'' \<and> c \<noteq> CHR ''-'' \<and> c \<noteq> CHR ''_''"
  by (auto simp: is_digit_def is_space_def)


lemma scan_digits_run:
  "list_all is_digit ds \<Longrightarrow> ds \<noteq> [] \<Longrightarrow>
   scan_digits prev acc (ds @ rest) = scan_digits AfterDigit (digits_value acc ds) rest"
proof (induction ds arbitrary: prev acc)
  case Nil
  then show ?case by simp
next
  case (Cons d ds)
  show ?case
  proof (cases "ds = []")
    case True
    with Cons.prems show ?thesis by (simp add: digits_value_def)
  next
    case False
    with Cons.prems Cons.IH[of AfterDigit "acc * 10 + digit_val d"] show ?thesis
      by (simp add: digits_value_def)
  qed
qed

lemma py_int_digits:
  assumes "list_all is_digit ds" "ds \<noteq> []"
  shows "py_int ds = Some (int (digits_value 0 ds))"
proof -
  from assms obtain c cs where e: "ds = c # cs" by (cases ds) auto
  with assms have c: "is_digit c" by simp
  then have d: "dropWhile is_space ds = ds" using e digit_not_other by simp
  have "scan_digits AtStart 0 (ds @ []) = scan_digits AfterDigit (digits_value 0 ds) []"
    using assms by (rule scan_digits_run)
  then have "scan_digits AtStart 0 ds = Some (digits_value 0 ds)" by simp
  then show ?thesis using d e c digit_not_other[of c] by (simp add: py_int_def)
qed

lemma py_int_minus_digits:
  assumes "list_all is_digit ds" "ds \<noteq> []"
  shows "py_int (CHR ''-'' # ds) = Some (- int (digits_value 0 ds))"
proof -
  have "scan_digits AtStart 0 (ds @ []) = scan_digits AfterDigit (digits_value 0 ds) []"
    using assms by (rule scan_digits_run)
  then have "scan_digits AtStart 0 ds = Some (digits_value 0 ds)" by simp
  then show ?thesis by (simp add: py_int_def is_space_def)
qed

lemma show_nat_digits: "list_all is_digit (show_nat n) \<and> show_nat n \<noteq> []"
proof (induction n rule: show_nat.induct)
  case (1 n)
  show ?case
  proof (cases "n < 10")
    case True
    then show ?thesis by (subst show_nat.simps, subst show_nat.simps) (simp add: digit_char_props)
  next
    case False
    with 1 show ?thesis
      by (subst show_nat.simps, subst (2) show_nat.simps) (simp add: digit_char_props)
  qed
qed

lemma show_nat_value: "digits_value 0 (show_nat n) = n"
proof (induction n rule: show_nat.induct)
  case (1 n)
  show ?case
  proof (cases "n < 10")
    case True
    then show ?thesis by (subst show_nat.simps) (simp add: digits_value_def digit_char_props)
  next
    case False
    with 1 have "digits_value 0 (show_nat (n div 10)) = n div 10" by simp
    with False show ?thesis
      by (subst show_nat.simps) (simp add: digits_value_def digit_char_props)
  qed
qed

lemma py_int_show_int: "py_int (show_int i) = Some i"
proof (cases "i < 0")
  case True
  then show ?thesis
    using py_int_minus_digits[of "show_nat (nat (- i))"] show_nat_digits[of "nat (- i)"]
    by (simp add: show_int_def show_nat_value)
next
  case False
  then show ?thesis
    using py_int_digits[of "show_nat (nat i)"] show_nat_digits[of "nat i"]
    by (simp add: show_int_def show_nat_value)
qed

lemma py_int_pad2: "py_int (pad2 i) = Some i"
proof (cases "0 \<le> i \<and> i < 10")
  case True
  have z: "is_digit CHR ''0''" "digit_val CHR ''0'' = 0" by (simp_all add: is_digit_def digit_val_def)
  have "py_int (CHR ''0'' # show_nat (nat i)) = Some (int (digits_value 0 (CHR ''0'' # show_nat (nat i))))"
    using show_nat_digits[of "nat i"] z by (intro py_int_digits) simp_all
  moreover have "digits_value 0 (CHR ''0'' # show_nat (nat i)) = digits_value 0 (show_nat (nat i))"
    using z by (simp add: digits_value_def)
  ultimately show ?thesis using True by (simp add: pad2_def show_int_def show_nat_value)
next
  case False
  then show ?thesis by (auto simp: pad2_def py_int_show_int)
qed

lemma parse_time_parts:
  "split_sep CHR '':'' t = [a, b] \<Longrightarrow> py_int a = Some m \<Longrightarrow> py_int b = Some s \<Longrightarrow>
   parse_time t = Inr ((m * 60 + s) * 1000)"
  by (simp add: parse_time_def)

lemma parse_time_joined:
  assumes "py_int a = Some m" "py_int b = Some s"
  shows "parse_time (a @ CHR '':'' # b) = Inr ((m * 60 + s) * 1000)"
proof -
  have "split_sep CHR '':'' (a @ CHR '':'' # b) = [a, b]"
    using assms py_int_no_colon by (intro split_sep_two) blast+
  then show ?thesis using assms by (rule parse_time_parts)
qed

lemma parse_format_time: "1000 dvd ms \<Longrightarrow> parse_time (format_time ms) = Inr ms"
proof -
  assume "1000 dvd ms"
  then obtain T where T: "ms = T * 1000" by (auto elim: dvdE)
  have "parse_time (format_time ms) = Inr ((ms div 60000 * 60 + (ms div 1000) mod 60) * 1000)"
    unfolding format_time_def by (rule parse_time_joined) (rule py_int_pad2)+
  moreover have "ms div 60000 = T div 60" using T by simp
  moreover have "ms div 1000 = T" using T by simp
  ultimately show ?thesis using T by simp
qed

lemma parse_time_result:
  "parse_time t = Inl (InvalidTimeFormat t) \<or> (\<exists>ms. parse_time t = Inr ms)"
  by (auto simp: parse_time_def Let_def split: option.splits)






subsection \<open>Time parsing\<close>



text \<open>
  Claim C7. A string whose two colon-separated parts read as the integers \<open>m\<close> and
  \<open>s\<close> parses to exactly \<open>(m * 60 + s) * 1000\<close> milliseconds, and formatting that value
  as "MM:SS" and parsing it again gives the same milliseconds.
\<close>

theorem parse_time_valid_roundtrip:
  assumes "split_sep CHR '':'' t = [a, b]" "py_int a = Some m" "py_int b = Some s"
  shows "parse_time t = Inr ((m * 60 + s) * 1000)
         \<and> parse_time (format_time ((m * 60 + s) * 1000)) = Inr ((m * 60 + s) * 1000)"
  using assms by (simp add: parse_time_parts parse_format_time)

theorem parse_time_valid_roundtrip_witness:
  "split_sep CHR '':'' ''01:30'' = [''01'', ''30''] \<and> py_int ''01'' = Some 1 \<and> py_int ''30'' = Some 30
   \<and> parse_time ''01:30'' = Inr 90000 \<and> format_time 90000 = ''01:30''
   \<and> parse_time (format_time 90000) = Inr 90000"
proof -
  have s: "split_sep CHR '':'' ''01:30'' = [''01'', ''30'']" by (simp add: Let_def)
  have a: "py_int ''01'' = Some 1" by (simp add: py_int_def is_space_def is_digit_def digit_val_def)
  have b: "py_int ''30'' = Some 30" by (simp add: py_int_def is_space_def is_digit_def digit_val_def)
  have f: "format_time 90000 = ''01:30''" by code_simp
  from parse_time_valid_roundtrip[OF s a b] show ?thesis using s a b f by simp
qed




subsection \<open>Upload and polling\<close>

lemma wait_processing_done:
  "state \<noteq> ''PROCESSING'' \<Longrightarrow> wait_processing env name k state w = Some (Inr state, w)"
  by (subst wait_processing.simps) simp

lemma wait_processing_polls:
  assumes "\<forall>i<n. get_file_result env (k + i) = Inr ''PROCESSING''"
      and "get_file_result env (k + n) = Inr final"
      and "final \<noteq> ''PROCESSING''"
  shows "wait_processing env name k ''PROCESSING'' w =
         Some (Inr final,
               w\<lparr>slept := slept w + 2 * Suc n,
                 events := events w @ concat (replicate (Suc n) [Sleep 2, GetFile name])\<rparr>)"
  using assms
proof (induction n arbitrary: k w)
  case 0
  then show ?case
    by (subst wait_processing.simps) (simp add: wait_processing_done emit_def)
next
  case (Suc n)
  from Suc.prems(1) have k: "get_file_result env k = Inr ''PROCESSING''" by force
  have a: "\<forall>i<n. get_file_result env (Suc k + i) = Inr ''PROCESSING''"
    using Suc.prems(1) by force
  have b: "get_file_result env (Suc k + n) = Inr final" using Suc.prems(2) by simp
  show ?case
    by (subst wait_processing.simps)
       (simp add: k Suc.IH[OF a b Suc.prems(3)] emit_def)
qed

lemma wait_processing_raises:
  assumes "\<forall>i<n. get_file_result env (k + i) = Inr ''PROCESSING''"
      and "get_file_result env (k + n) = Inl e"
  shows "wait_processing env name k ''PROCESSING'' w =
         Some (Inl e,
               w\<lparr>slept := slept w + 2 * Suc n,
                 events := events w @ concat (replicate (Suc n) [Sleep 2, GetFile name])\<rparr>)"
  using assms
proof (induction n arbitrary: k w)
  case 0
  then show ?case
    by (subst wait_processing.simps) (simp add: emit_def)
next
  case (Suc n)
  from Suc.prems(1) have k: "get_file_result env k = Inr ''PROCESSING''" by force
  have a: "\<forall>i<n. get_file_result env (Suc k + i) = Inr ''PROCESSING''"
    using Suc.prems(1) by force
  have b: "get_file_result env (Suc k + n) = Inl e" using Suc.prems(2) by simp
  show ?case
    by (subst wait_processing.simps)
       (simp add: k Suc.IH[OF a b] emit_def)
qed

lemma wait_processing_returns:
  "wait_processing env name k state w = Some r \<Longrightarrow>
   state \<noteq> ''PROCESSING'' \<or> (\<exists>j\<ge>k. get_file_result env j \<noteq> Inr ''PROCESSING'')"
proof (induction rule: wait_processing.raw_induct[rotated 1, consumes 1])
  case (1 wp env name k state w r)
  show ?case
  proof (cases "state = ''PROCESSING'' \<and> get_file_result env k = Inr ''PROCESSING''")
    case True
    with 1(2) have "wp env name (Suc k) ''PROCESSING'' (emit (GetFile name) (emit (Sleep 2) (w\<lparr>slept := slept w + 2\<rparr>))) = Some r"
      by simp
    from 1(1)[OF this] obtain j where "j \<ge> Suc k" "get_file_result env j \<noteq> Inr ''PROCESSING''" by auto
    then show ?thesis by (metis Suc_leD)
  next
    case False
    then show ?thesis by auto
  qed
qed

lemma wait_processing_forever:
  "\<forall>j. get_file_result env j = Inr ''PROCESSING'' \<Longrightarrow>
   wait_processing env name k ''PROCESSING'' w = None"
  using wait_processing_returns[of env name k "''PROCESSING''" w]
  by (cases "wait_processing env name k ''PROCESSING'' w") auto


lemma reported_0: "upload_result env = Inr (name, st0) \<Longrightarrow> reported env 0 = Inr st0"
  by (simp add: reported_def)

lemma reported_Suc: "reported env (Suc j) = get_file_result env j"
  by (simp add: reported_def)

lemma upload_file_returns:
  assumes up: "upload_result env = Inr (name, st0)"
      and proc: "\<forall>k<n. reported env k = Inr ''PROCESSING''"
      and fin: "reported env n = Inr final" "final \<noteq> ''PROCESSING''"
  shows "upload_file env p w =
         Some (if final = ''ACTIVE'' then Inr name else Inl (UploadFailed final),
               w\<lparr>remote_files := insert name (remote_files w),
                 slept := slept w + 2 * n,
                 events := events w @ UploadCall p # concat (replicate n [Sleep 2, GetFile name])\<rparr>)"
proof (cases n)
  case 0
  with fin up have "st0 = final" by (simp add: reported_0)
  with fin(2) 0 up show ?thesis
    by (simp add: upload_file_def wait_processing_done emit_def)
next
  case (Suc m)
  with proc have "reported env 0 = Inr ''PROCESSING''" by blast
  with up have st0: "st0 = ''PROCESSING''" by (simp add: reported_0)
  have a: "\<forall>i<m. get_file_result env (0 + i) = Inr ''PROCESSING''"
    using proc Suc reported_Suc by (metis Suc_less_eq add_0)
  have b: "get_file_result env (0 + m) = Inr final" using fin(1) Suc by (simp add: reported_Suc)
  show ?thesis
    using up st0 Suc wait_processing_polls[OF a b fin(2)]
    by (simp add: upload_file_def emit_def)
qed

lemma upload_file_never_returns:
  assumes up: "upload_result env = Inr (name, st0)"
      and proc: "\<forall>k. reported env k = Inr ''PROCESSING''"
  shows "upload_file env p w = None"
proof -
  from proc have "reported env 0 = Inr ''PROCESSING''" by blast
  with up have st0: "st0 = ''PROCESSING''" by (simp add: reported_0)
  have "\<forall>j. get_file_result env j = Inr ''PROCESSING''"
    using proc reported_Suc by metis
  then show ?thesis using up st0 by (simp add: upload_file_def wait_processing_forever)
qed

text \<open>
  Claim C8. After a successful upload call the program polls for as long as the service
  reports \<open>PROCESSING\<close>, sleeping 2 time units before each poll. If the first report
  other than \<open>PROCESSING\<close> is the \<open>n\<close>-th (the upload's own report being number 0), the
  call returns after exactly \<open>n\<close> polls and \<open>2 * n\<close> time units: with the handle when
  that state is \<open>ACTIVE\<close>, with \<open>UploadFailed\<close> carrying the state otherwise. If the
  service reports \<open>PROCESSING\<close> forever, the call never returns.
\<close>

theorem upload_file_polling:
  assumes "upload_result env = Inr (name, st0)"
  shows "((\<forall>k<n. reported env k = Inr ''PROCESSING'') \<and> reported env n = Inr final
            \<and> final \<noteq> ''PROCESSING'' \<longrightarrow>
          upload_file env p w =
            Some (if final = ''ACTIVE'' then Inr name else Inl (UploadFailed final),
                  w\<lparr>remote_files := insert name (remote_files w),
                    slept := slept w + 2 * n,
                    events := events w @ UploadCall p # concat (replicate n [Sleep 2, GetFile name])\<rparr>))
       \<and> ((\<forall>k. reported env k = Inr ''PROCESSING'') \<longrightarrow> upload_file env p w = None)"
  using assms upload_file_returns upload_file_never_returns by blast

theorem upload_file_polling_witness:
  "upload_result env_slow_failed = Inr (''files/f1'', ''PROCESSING'')
   \<and> reported env_slow_failed 0 = Inr ''PROCESSING''
   \<and> reported env_slow_failed 1 = Inr ''PROCESSING''
   \<and> reported env_slow_failed 2 = Inr ''PROCESSING''
   \<and> reported env_slow_failed 3 = Inr ''FAILED''
   \<and> upload_file env_slow_failed ''a.wav'' world0 =
       Some (Inl (UploadFailed ''FAILED''),
             world0\<lparr>remote_files := {''files/f1''}, slept := 6,
                    events := [UploadCall ''a.wav'', Sleep 2, GetFile ''files/f1'',
                               Sleep 2, GetFile ''files/f1'', Sleep 2, GetFile ''files/f1'']\<rparr>)"
proof -
  have u: "upload_result env_slow_failed = Inr (''files/f1'', ''PROCESSING'')"
    by (simp add: env_slow_failed_def env_ok_def)
  have r: "\<forall>k<3. reported env_slow_failed k = Inr ''PROCESSING''"
    by (auto simp: reported_def env_slow_failed_def env_ok_def split: nat.splits)
  have f: "reported env_slow_failed 3 = Inr ''FAILED''"
    by (simp add: reported_def env_slow_failed_def env_ok_def numeral_3_eq_3)
  have "upload_file env_slow_failed ''a.wav'' world0 =
       Some (if ''FAILED'' = ''ACTIVE'' then Inr ''files/f1'' else Inl (UploadFailed ''FAILED''),
             world0\<lparr>remote_files := insert ''files/f1'' (remote_files world0),
                    slept := slept world0 + 2 * 3,
                    events := events world0 @ UploadCall ''a.wav'' # concat (replicate 3 [Sleep 2, GetFile ''files/f1''])\<rparr>)"
    using upload_file_polling[OF u, of 3 "''FAILED''" "''a.wav''" world0] r f by simp
  moreover have "reported env_slow_failed 0 = Inr ''PROCESSING''"
    "reported env_slow_failed 1 = Inr ''PROCESSING''" "reported env_slow_failed 2 = Inr ''PROCESSING''"
    using r by simp_all
  ultimately show ?thesis using u f by (simp add: world0_def numeral_3_eq_3)
qed


subsection \<open>Choosing between inline bytes and upload\<close>

lemma size_mb_less: "size_mb bytes < MAX_FILE_SIZE_MB \<longleftrightarrow> bytes < 20971520"
  by (simp add: size_mb_def MAX_FILE_SIZE_MB_def field_simps)

text \<open>
  Claim C2. For every inline flag and size: the inline path is taken exactly when the size
  is below 20 MB; at 20 MB or more the file is uploaded, after a warning when the inline
  flag is set and without one otherwise. So upload is chosen if and only if the size is
  at least 20 MB (20 * 1024 * 1024 bytes), and \<open>prepare_content\<close> makes the calls the
  choice names.
\<close>

theorem choose_strategy_threshold:
  "(choose_strategy inl sz = UseInline \<longleftrightarrow> sz < 20)
   \<and> (choose_strategy inl sz = UploadWithWarning \<longleftrightarrow> inl \<and> sz \<ge> 20)
   \<and> (choose_strategy inl sz = UploadDirect \<longleftrightarrow> \<not> inl \<and> sz \<ge> 20)
   \<and> (choose_strategy inl (size_mb bytes) \<noteq> UseInline \<longleftrightarrow> bytes \<ge> 20 * 1024 * 1024)
   \<and> prepare_content env inl p sz w =
       (if sz \<ge> 20 then
          uploaded_as (upload_file env p
            (if inl then emit (Warning ''File size exceeds limit for inline processing'') w else w))
        else
          (case process_inline env p w of
             (Inl e, w1) \<Rightarrow> Some (Inl e, w1)
           | (Inr c, w1) \<Rightarrow> Some (Inr (c, None), w1)))"
  using size_mb_less[of bytes]
  by (auto simp: choose_strategy_def prepare_content_def MAX_FILE_SIZE_MB_def)

theorem choose_strategy_threshold_witness:
  "choose_strategy False (size_mb 5242880) = UseInline
   \<and> choose_strategy False (size_mb 52428800) = UploadDirect
   \<and> choose_strategy True (size_mb 52428800) = UploadWithWarning
   \<and> choose_strategy True (size_mb 20971519) = UseInline
   \<and> choose_strategy False (size_mb 20971520) = UploadDirect"
  using choose_strategy_threshold[of False "size_mb 5242880" 5242880]
        choose_strategy_threshold[of False "size_mb 52428800" 52428800]
        choose_strategy_threshold[of True "size_mb 52428800" 52428800]
        choose_strategy_threshold[of True "size_mb 20971519" 20971519]
        choose_strategy_threshold[of False "size_mb 20971520" 20971520]
  by (simp add: size_mb_def)

subsection \<open>The prompt\<close>

lemma range_prompt_not_generic: "range_prompt st en \<noteq> generic_prompt"
  by (simp add: range_prompt_def generic_prompt_def)

text \<open>
  Claim C3. The request \<open>transcribe\<close> sends carries the prompt naming the range from
  start to end if and only if timestamp mode is on and both bounds are present; in every
  other case it carries the generic prompt. A bound is present when Python takes it as
  true, that is when it is neither \<open>None\<close> nor the empty string.
\<close>

theorem transcribe_prompt_choice:
  "transcribe env c si ts st en w =
     (generate_result env (build_prompt ts st en) c (if truthy si then si else None),
      emit (Generate (build_prompt ts st en) c (if truthy si then si else None)) w)
   \<and> (build_prompt ts st en = range_prompt st en \<longleftrightarrow> ts \<and> truthy st \<and> truthy en)
   \<and> (build_prompt ts st en = generic_prompt \<longleftrightarrow> \<not> (ts \<and> truthy st \<and> truthy en))
   \<and> range_prompt (Some s) (Some e) =
       ''Provide a transcript of the speech from '' @ s @ '' to '' @ e @ ''.''"
  using range_prompt_not_generic[of st en]
  by (auto simp: transcribe_def build_prompt_def Let_def range_prompt_def)

theorem transcribe_prompt_choice_witness:
  "build_prompt True (Some ''01:30'') (Some ''05:45'') =
     ''Provide a transcript of the speech from 01:30 to 05:45.''
   \<and> build_prompt True (Some ''01:30'') None = generic_prompt
   \<and> build_prompt False (Some ''01:30'') (Some ''05:45'') = generic_prompt"
  using transcribe_prompt_choice[of _ _ _ True "Some ''01:30''" "Some ''05:45''" _ "''01:30''" "''05:45''"]
        transcribe_prompt_choice[of _ _ _ True "Some ''01:30''" None]
        transcribe_prompt_choice[of _ _ _ False "Some ''01:30''" "Some ''05:45''"]
  by simp

subsection \<open>Trimming\<close>

lemma trim_audio_falsy:
  "\<not> truthy st \<Longrightarrow> \<not> truthy en \<Longrightarrow> trim_audio env p st en w = (Inr p, w)"
  by (simp add: trim_audio_def)

text \<open>
  Claim C4. With neither a start nor an end time, \<open>trim_audio\<close> returns the input path
  and leaves the world as it was: no temporary file, no external call.
\<close>

theorem trim_audio_no_bounds:
  "trim_audio env p None None w = (Inr p, w)"
  by (simp add: trim_audio_def)

lemma trim_audio_checked:
  assumes "truthy st \<or> truthy en"
      and "decode_len env p = Inr n"
      and "bound_ms st 0 = Inr a"
      and "bound_ms en (int n) = Inr b"
  shows "trim_audio env p st en w =
         (if a \<ge> b then (Inl InvalidRange, emit (Decode p) w)
          else if a > int n then (Inl StartExceedsDuration, emit (Decode p) w)
          else
            (case export_result env of
               Some e \<Rightarrow>
                 (Inl e, emit (Export (new_temp_name env)) (emit (CreateTemp (new_temp_name env))
                    ((emit (Decode p) w)\<lparr>temp_files := (temp_files w)(new_temp_name env \<mapsto> EmptyTemp)\<rparr>)))
             | None \<Rightarrow>
                 (Inr (new_temp_name env),
                  (emit (Export (new_temp_name env)) (emit (CreateTemp (new_temp_name env)) (emit (Decode p) w)))
                    \<lparr>temp_files := (temp_files w)(new_temp_name env \<mapsto> Mp3Clip p a b)\<rparr>)))"
  using assms by (auto simp: trim_audio_def Let_def emit_def split: option.splits)

text \<open>
  Claim C5, as amended. For a trim request with at least one bound, on a source that
  decodes and with bounds that parse (start defaulting to 0, end to the duration):
  trimming fails with \<open>InvalidRange\<close> whenever start \<open>\<ge>\<close> end; it fails with
  \<open>StartExceedsDuration\<close> whenever start \<open><\<close> end and start is beyond the duration; it
  succeeds when neither holds and the export does not fail; and on success the
  temporary file holds the clip from start to end of the source.
\<close>

theorem trim_audio_range_checks:
  assumes "truthy st \<or> truthy en"
      and "decode_len env p = Inr n"
      and "bound_ms st 0 = Inr a"
      and "bound_ms en (int n) = Inr b"
  shows "(a \<ge> b \<longrightarrow> fst (trim_audio env p st en w) = Inl InvalidRange)
       \<and> (a < b \<and> a > int n \<longrightarrow> fst (trim_audio env p st en w) = Inl StartExceedsDuration)
       \<and> (a < b \<and> a \<le> int n \<and> export_result env = None \<longrightarrow>
            fst (trim_audio env p st en w) = Inr (new_temp_name env))
       \<and> (\<forall>t. fst (trim_audio env p st en w) = Inr t \<longrightarrow>
            temp_files (snd (trim_audio env p st en w)) t = Some (Mp3Clip p a b))"
  using trim_audio_checked[OF assms, of w]
  by (auto split: option.splits)

theorem trim_audio_range_checks_witness:
  "fst (trim_audio env_ok ''a.mp3'' (Some ''01:30'') (Some ''05:45'') world0) = Inr ''/tmp/t.mp3''
   \<and> temp_files (snd (trim_audio env_ok ''a.mp3'' (Some ''01:30'') (Some ''05:45'') world0)) ''/tmp/t.mp3''
       = Some (Mp3Clip ''a.mp3'' 90000 345000)
   \<and> fst (trim_audio env_ok ''a.mp3'' (Some ''05:45'') (Some ''01:30'') world0) = Inl InvalidRange
   \<and> fst (trim_audio env_ok ''a.mp3'' (Some ''10:30'') (Some ''11:00'') world0) = Inl StartExceedsDuration"
proof -
  have d: "decode_len env_ok ''a.mp3'' = Inr 600000" "export_result env_ok = None"
          "new_temp_name env_ok = ''/tmp/t.mp3''"
    by (simp_all add: env_ok_def)
  have p1: "parse_time ''01:30'' = Inr 90000" by code_simp
  have p2: "parse_time ''05:45'' = Inr 345000" by code_simp
  have p3: "parse_time ''10:30'' = Inr 630000" by code_simp
  have p4: "parse_time ''11:00'' = Inr 660000" by code_simp
  have t: "truthy (Some ''01:30'') \<or> truthy (Some ''05:45'')" by simp
  have b1: "bound_ms (Some ''01:30'') 0 = Inr 90000" "bound_ms (Some ''05:45'') (int 600000) = Inr 345000"
           "bound_ms (Some ''05:45'') 0 = Inr 345000" "bound_ms (Some ''01:30'') (int 600000) = Inr 90000"
           "bound_ms (Some ''10:30'') 0 = Inr 630000" "bound_ms (Some ''11:00'') (int 600000) = Inr 660000"
    by (simp_all add: bound_ms_def p1 p2 p3 p4)
  from trim_audio_range_checks[OF _ d(1) b1(1) b1(2), of world0]
       trim_audio_range_checks[OF _ d(1) b1(3) b1(4), of world0]
       trim_audio_range_checks[OF _ d(1) b1(5) b1(6), of world0]
  show ?thesis using d by simp
qed

text \<open>
  Claim C5 as stated fails: the range check comes first. A start of 10:30 on a source of
  ten minutes, with no end given, is beyond the duration, and the error is
  \<open>InvalidRange\<close>, not \<open>StartExceedsDuration\<close>.
\<close>

theorem trim_audio_start_beyond_duration_counterexample:
  "truthy (Some ''10:30'')
   \<and> decode_len env_ok ''a.mp3'' = Inr 600000
   \<and> bound_ms (Some ''10:30'') 0 = Inr 630000
   \<and> (630000 :: int) > int 600000
   \<and> fst (trim_audio env_ok ''a.mp3'' (Some ''10:30'') None world0) = Inl InvalidRange
   \<and> fst (trim_audio env_ok ''a.mp3'' (Some ''10:30'') None world0) \<noteq> Inl StartExceedsDuration"
proof -
  have p3: "parse_time ''10:30'' = Inr 630000" by code_simp
  then show ?thesis
    by (simp add: trim_audio_def bound_ms_def env_ok_def Let_def)
qed


subsection \<open>The whole run\<close>

lemma build_prompt_not_both:
  "\<not> (truthy st \<and> truthy en) \<Longrightarrow> build_prompt ts st en = generic_prompt"
  by (auto simp: build_prompt_def)

lemma trim_stage_timestamps:
  "use_timestamps a \<Longrightarrow> trim_stage env a sz w = (Inr (None, arg_input a, sz), w)"
  by (simp add: trim_stage_def)

lemma transcribe_not_both:
  "\<not> (truthy st \<and> truthy en) \<Longrightarrow>
   transcribe env c si ts st en w = transcribe env c si ts None None w"
  by (auto simp: transcribe_def build_prompt_def)

lemma save_results_bounds:
  "save_results env (a\<lparr>start := x, end_time := y\<rparr>) up tr w = save_results env a up tr w"
  by (auto simp: save_results_def final_cleanup_def split: prod.splits option.splits sum.splits)

lemma try_body_bounds_ignored:
  assumes "use_timestamps a" "\<not> (truthy (start a) \<and> truthy (end_time a))"
  shows "try_body env a w = try_body env (a\<lparr>start := None, end_time := None\<rparr>) w"
proof -
  have t: "trim_stage env (a\<lparr>start := None, end_time := None\<rparr>) sz w = trim_stage env a sz w" for sz
    using assms(1) by (simp add: trim_stage_def)
  have s: "transcribe env c (system_instruction a) (use_timestamps a) (start a) (end_time a) w2 =
           transcribe env c (system_instruction a) (use_timestamps a) None None w2" for c w2
    using assms(2) by (rule transcribe_not_both)
  show ?thesis
    by (simp add: try_body_def t s save_results_bounds
          cong: sum.case_cong prod.case_cong option.case_cong)
qed

lemma main_run_bounds_ignored:
  assumes "use_timestamps a" "\<not> (truthy (start a) \<and> truthy (end_time a))"
  shows "main_run env a w = main_run env (a\<lparr>start := None, end_time := None\<rparr>) w"
  using try_body_bounds_ignored[OF assms] by (simp add: main_run_def)

text \<open>
  Claim C9. In timestamp mode with exactly one of the two bounds given, the bound is
  ignored: the run is the run without any bound, for every outside and every other
  argument. No trim takes place (the bound is not even parsed, so it raises nothing)
  and the prompt is the generic one.
\<close>

theorem timestamps_single_bound_ignored:
  assumes "use_timestamps a" and "truthy (start a) \<noteq> truthy (end_time a)"
  shows "main_run env a w = main_run env (a\<lparr>start := None, end_time := None\<rparr>) w
       \<and> trim_stage env a sz w = (Inr (None, arg_input a, sz), w)
       \<and> build_prompt (use_timestamps a) (start a) (end_time a) = generic_prompt"
  using assms main_run_bounds_ignored[of a env w] trim_stage_timestamps[of a env sz w]
        build_prompt_not_both[of "start a" "end_time a" "use_timestamps a"]
  by auto

lemma main_run_ok_plain:
  "main_run env_ok (args0\<lparr>use_timestamps := True\<rparr>) world0 =
   Some (0, world0\<lparr>written := [''out.txt'' \<mapsto> ''text''],
                   events := [UploadCall ''lecture.wav'',
                              Generate generic_prompt (RemoteFile ''files/f1'') None,
                              WriteFile ''out.txt'', DeleteRemote ''files/f1'']\<rparr>)"
  by (simp add: main_run_def try_body_def validate_file_def trim_stage_def prepare_content_def
        choose_strategy_def size_mb_def MAX_FILE_SIZE_MB_def upload_file_def uploaded_as_def
        wait_processing_done transcribe_def build_prompt_def save_results_def write_file_def
        final_cleanup_def cleanup_file_def finally_block_def emit_def
        env_ok_def args0_def world0_def SUPPORTED_FORMATS_def Let_def)

theorem timestamps_single_bound_ignored_witness:
  "use_timestamps (args0\<lparr>start := Some ''xx'', use_timestamps := True\<rparr>)
   \<and> truthy (start (args0\<lparr>start := Some ''xx'', use_timestamps := True\<rparr>))
   \<and> \<not> truthy (end_time (args0\<lparr>start := Some ''xx'', use_timestamps := True\<rparr>))
   \<and> main_run env_ok (args0\<lparr>start := Some ''xx'', use_timestamps := True\<rparr>) world0 =
       Some (0, world0\<lparr>written := [''out.txt'' \<mapsto> ''text''],
                   events := [UploadCall ''lecture.wav'',
                              Generate generic_prompt (RemoteFile ''files/f1'') None,
                              WriteFile ''out.txt'', DeleteRemote ''files/f1'']\<rparr>)"
proof -
  let ?a = "args0\<lparr>start := Some ''xx'', use_timestamps := True\<rparr>"
  have u: "use_timestamps ?a" by simp
  have t: "truthy (start ?a) \<noteq> truthy (end_time ?a)" by (simp add: args0_def)
  have e: "?a\<lparr>start := None, end_time := None\<rparr> = args0\<lparr>use_timestamps := True\<rparr>"
    by (simp add: args0_def)
  from timestamps_single_bound_ignored[OF u t, of env_ok world0]
  have "main_run env_ok ?a world0 = main_run env_ok (args0\<lparr>use_timestamps := True\<rparr>) world0"
    by (simp only: e)
  then show ?thesis using main_run_ok_plain by (simp add: args0_def)
qed

text \<open>
  Claim C1 at a concrete run: a trimmed clip of 50 MB is uploaded, the upload is active,
  and the transcription request fails. The run ends with exit code 1. The temporary file
  is removed by the \<open>finally\<close> block; the uploaded resource is still there and no call
  to delete it was made, because the deletion sits at the end of the \<open>try\<close> body.
\<close>

theorem main_leaves_upload_after_failed_transcription:
  "main_run env_generate_fails (args0\<lparr>start := Some ''01:30'', end_time := Some ''05:45''\<rparr>) world0 =
   Some (1, world0\<lparr>remote_files := {''files/f1''},
                   events := [Decode ''lecture.wav'', CreateTemp ''/tmp/t.mp3'', Export ''/tmp/t.mp3'',
                              UploadCall ''/tmp/t.mp3'',
                              Generate generic_prompt (RemoteFile ''files/f1'') None,
                              RemoveTemp ''/tmp/t.mp3'']\<rparr>)"
proof -
  have p1: "parse_time ''01:30'' = Inr 90000" by code_simp
  have p2: "parse_time ''05:45'' = Inr 345000" by code_simp
  show ?thesis
  by (simp add: main_run_def try_body_def validate_file_def trim_stage_def prepare_content_def
        trim_audio_def bound_ms_def p1 p2
        choose_strategy_def size_mb_def MAX_FILE_SIZE_MB_def upload_file_def uploaded_as_def
        wait_processing_done transcribe_def build_prompt_def save_results_def write_file_def
        final_cleanup_def cleanup_file_def finally_block_def emit_def env_generate_fails_def
        env_ok_def args0_def world0_def SUPPORTED_FORMATS_def Let_def)
qed

end
